theory Spec2Isabelle
  imports Complex_Main
begin

section \<open>The options analyzer of main.py\<close>

text \<open>
  The program is one class, \<open>OptionsAnalyzer\<close>: five small pricing formulas, a loop that
  turns a list of stock records into a list of result rows, and two writers (a spreadsheet
  and a figure) over those rows.

  Numbers. The stock data are Python integers and become floats at the first true division
  or at the first product with a float literal. The model has one number type, \<open>real\<close>,
  and every arithmetic operation is exact: the binary rounding of float arithmetic is not
  part of it. The two can differ by one rounding step where the exact value is a rounding
  midpoint and the float beside it is not:
  \<^item> \<open>calculate_strike_with_margin(44500, 15, False)\<close> is 51150 in the interpreter
    and 51200 here (\<open>44500 * (1 + 15 / 100)\<close> is a little under 51175 as a float), and
    likewise 7450 against 7500 for a spot of 6500;
  \<^item> \<open>generate_option_premium(1234.5, 1300, 'CE')\<close> is 12.35 in the interpreter and 12.34
    here;
  \<^item> \<open>calculate_irr(93.42, 800, 30)\<close> is 947.17 in the interpreter and 947.18 here;
  \<^item> so the row of the sample record BANKNIFTY has a put strike, put premium and put return of
    51150, 7540 and 1195.66 in the interpreter and of 51200, 7590 and 1202.41 here.

  The statements below are chosen so that they hold of both computations. What is rounded
  to two decimals is stated as a two-decimal value within half a hundredth of the exact
  formula, which leaves the choice at a midpoint open. A concrete number is stated only at
  inputs where the float computation gives that same number (the record NIFTY with margin
  15, and the inputs of the examples). What is stated about whole runs over the sample
  records is the number of rows, their keys and their symbols, not their numeric cells.

  Exceptions. The only exception the formulas can raise on numbers is
  \<open>ZeroDivisionError\<close>; a function that can raise it returns \<open>error + real\<close>.
\<close>

datatype error = ZeroDivisionError

subsection \<open>Built-in rounding\<close>

text \<open>
  \<open>round(x)\<close> on a float returns the nearest integer and, of the two nearest ones at a
  midpoint, the even one. \<open>round(x, 2)\<close> does the same at the second decimal.
\<close>

definition py_round :: "real \<Rightarrow> int" where
  "py_round x =
     (let f = \<lfloor>x\<rfloor>; d = x - of_int f
      in if d < 1 / 2 then f
         else if 1 / 2 < d then f + 1
         else if even f then f else f + 1)"

definition py_round2 :: "real \<Rightarrow> real" where
  "py_round2 x = of_int (py_round (x * 100)) / 100"

subsection \<open>The pricing formulas\<close>

definition calculate_percentile :: "real \<Rightarrow> real \<Rightarrow> real \<Rightarrow> real" where
  "calculate_percentile current high low =
     (if high = low then 50 else ((current - low) / (high - low)) * 100)"

text \<open>The parameter \<open>strike_interval\<close> has the default 50; callers below pass it.\<close>

definition find_nearest_strike :: "real \<Rightarrow> real \<Rightarrow> error + real" where
  "find_nearest_strike price strike_interval =
     (if strike_interval = 0 then Inl ZeroDivisionError
      else Inr (of_int (py_round (price / strike_interval)) * strike_interval))"

definition calculate_strike_with_margin :: "real \<Rightarrow> real \<Rightarrow> bool \<Rightarrow> error + real" where
  "calculate_strike_with_margin spot margin is_call =
     (case find_nearest_strike spot 50 of
        Inl e \<Rightarrow> Inl e
      | Inr nearest_strike \<Rightarrow>
          (let target_price =
                 (if is_call then nearest_strike * (1 - margin / 100)
                  else nearest_strike * (1 + margin / 100))
           in find_nearest_strike target_price 50))"

text \<open>The option type is a string; every string other than \<open>CE\<close> is treated as a put.\<close>

definition generate_option_premium :: "real \<Rightarrow> real \<Rightarrow> string \<Rightarrow> real" where
  "generate_option_premium spot strike option_type =
     (let base_premium =
            (if option_type = ''CE'' then
               (if spot > strike then (spot - strike) + (spot * 0.02) else spot * 0.01)
             else
               (if spot < strike then (strike - spot) + (spot * 0.02) else spot * 0.01))
      in py_round2 base_premium)"

text \<open>
  The parameter \<open>days_to_expiry\<close> has the default 30. The quotient
  \<open>premium / margin_required\<close> is evaluated first, then \<open>365 / days_to_expiry\<close>, which
  raises when the days are zero.
\<close>

definition calculate_irr :: "real \<Rightarrow> real \<Rightarrow> real \<Rightarrow> error + real" where
  "calculate_irr premium strike days_to_expiry =
     (let margin_required = strike * 0.15
      in if margin_required = 0 then Inr 0
         else if days_to_expiry = 0 then Inl ZeroDivisionError
         else Inr (py_round2 ((premium / margin_required) * (365 / days_to_expiry) * 100)))"

subsection \<open>Records, rows and the analyzer object\<close>

record stock =
  symbol :: string
  spot_price :: real
  high_52w :: real
  low_52w :: real
  lot_size :: real

definition get_sample_data :: "stock list" where
  "get_sample_data =
     [\<lparr>symbol = ''NIFTY'', spot_price = 19500, high_52w = 20000, low_52w = 18000, lot_size = 50\<rparr>,
      \<lparr>symbol = ''BANKNIFTY'', spot_price = 44500, high_52w = 46000, low_52w = 42000, lot_size = 25\<rparr>,
      \<lparr>symbol = ''RELIANCE'', spot_price = 2450, high_52w = 2650, low_52w = 2250, lot_size = 250\<rparr>,
      \<lparr>symbol = ''TCS'', spot_price = 3600, high_52w = 3850, low_52w = 3200, lot_size = 125\<rparr>,
      \<lparr>symbol = ''INFY'', spot_price = 1480, high_52w = 1600, low_52w = 1350, lot_size = 300\<rparr>,
      \<lparr>symbol = ''HDFCBANK'', spot_price = 1650, high_52w = 1750, low_52w = 1450, lot_size = 550\<rparr>,
      \<lparr>symbol = ''ICICIBANK'', spot_price = 950, high_52w = 1050, low_52w = 850, lot_size = 1375\<rparr>,
      \<lparr>symbol = ''SBIN'', spot_price = 590, high_52w = 650, low_52w = 520, lot_size = 1500\<rparr>,
      \<lparr>symbol = ''BHARTIARTL'', spot_price = 880, high_52w = 950, low_52w = 750, lot_size = 1220\<rparr>,
      \<lparr>symbol = ''HINDUNILVR'', spot_price = 2580, high_52w = 2800, low_52w = 2350, lot_size = 300\<rparr>]"

text \<open>
  A result row is a dictionary built by one literal; its keys keep their insertion order,
  so it is an association list. A cell holds a string or a number.
\<close>

datatype cell = Str string | Num real

type_synonym row = "(string \<times> cell) list"

text \<open>
  What the writers leave on disk. A workbook has one sheet: its name, its header row and its
  data rows, where a cell is missing when the row's dictionary has no such key. A figure is
  drawn by the plotting library from the rows; the model keeps the rows it was drawn from,
  not the pixels.
\<close>

datatype file_content =
    Workbook string "string list" "cell option list list"
  | Figure "row list"

text \<open>
  The state is the object's three fields together with the two parts of the outside world
  the methods touch: the files by name and the lines printed so far. Each printed line
  starts with a pictograph in the program; the model keeps the text after it.
\<close>

record state =
  analysis_data :: "row list"
  margin_percent :: real
  lot_multiplier :: real
  files :: "string \<rightharpoonup> file_content"
  out :: "string list"

text \<open>The constructor, in a world with the files \<open>fs\<close>.\<close>

definition init :: "(string \<rightharpoonup> file_content) \<Rightarrow> state" where
  "init fs =
     \<lparr>analysis_data = [], margin_percent = 15, lot_multiplier = 1, files = fs, out = []\<rparr>"

definition print :: "string \<Rightarrow> state \<Rightarrow> state" where
  "print line s = s\<lparr>out := out s @ [line]\<rparr>"

text \<open>\<open>str\<close> of a non-negative integer, for the row count in the closing message.\<close>

fun str_nat :: "nat \<Rightarrow> string" where
  "str_nat n =
     (if n < 10 then [''0123456789'' ! n]
      else str_nat (n div 10) @ [''0123456789'' ! (n mod 10)])"

declare str_nat.simps [simp del]

subsection \<open>The analysis loop\<close>

text \<open>
  One pass of the loop body has two parts: the metrics of one stock, collected in the
  dictionary \<open>row_data\<close>, and the append of that dictionary to \<open>analysis_data\<close>.
\<close>

definition row_data :: "stock \<Rightarrow> state \<Rightarrow> error + row" where
  "row_data st s =
     (let spot = spot_price st;
          high = high_52w st;
          low = low_52w st;
          percentile = calculate_percentile spot high low
      in case calculate_strike_with_margin spot (margin_percent s) True of
           Inl e \<Rightarrow> Inl e
         | Inr ce_strike \<Rightarrow>
       (case calculate_strike_with_margin spot (margin_percent s) False of
           Inl e \<Rightarrow> Inl e
         | Inr pe_strike \<Rightarrow>
       (let ce_premium = generate_option_premium spot ce_strike ''CE'';
            pe_premium = generate_option_premium spot pe_strike ''PE''
        in case calculate_irr ce_premium ce_strike 30 of
           Inl e \<Rightarrow> Inl e
         | Inr ce_irr \<Rightarrow>
       (case calculate_irr pe_premium pe_strike 30 of
           Inl e \<Rightarrow> Inl e
         | Inr pe_irr \<Rightarrow>
       (let adjusted_lot_size = lot_size st * lot_multiplier s
        in Inr [(''Symbol'', Str (symbol st)),
                (''Spot Price'', Num spot),
                (''52W High'', Num high),
                (''52W Low'', Num low),
                (''Percentile'', Num (py_round2 percentile)),
                (''Lot Size'', Num adjusted_lot_size),
                (''CE Strike'', Num ce_strike),
                (''CE Premium'', Num ce_premium),
                (''CE IRR'', Num (py_round2 ce_irr)),
                (''PE Strike'', Num pe_strike),
                (''PE Premium'', Num pe_premium),
                (''PE IRR'', Num (py_round2 pe_irr)),
                (''Margin Used (%)'', Num (margin_percent s))])))))"

fun analyze_loop :: "stock list \<Rightarrow> state \<Rightarrow> error + state" where
  "analyze_loop [] s = Inr s"
| "analyze_loop (st # stocks) s =
     (case row_data st s of
        Inl e \<Rightarrow> Inl e
      | Inr r \<Rightarrow> analyze_loop stocks (s\<lparr>analysis_data := analysis_data s @ [r]\<rparr>))"

text \<open>
  \<open>analyze\<close> reads its stocks from \<open>get_sample_data\<close>, which the program marks as the
  place of the market-data call; the model takes the list that call returns as the argument
  \<open>stocks\<close>. The list the method returns is the field \<open>analysis_data\<close> of the state
  returned here.
\<close>

definition analyze :: "stock list \<Rightarrow> state \<Rightarrow> error + state" where
  "analyze stocks s =
     (case analyze_loop stocks (print ''Starting Options Analysis...'' s) of
        Inl e \<Rightarrow> Inl e
      | Inr s' \<Rightarrow>
          Inr (print (''Analysis completed for '' @ str_nat (length (analysis_data s'))
                       @ '' symbols!'') s'))"

subsection \<open>The writers\<close>

text \<open>
  The data frame of a list of dictionaries has one column per key, in the order in which the
  keys first appear, and one line per dictionary.
\<close>

fun frame_columns :: "row list \<Rightarrow> string list \<Rightarrow> string list" where
  "frame_columns [] acc = acc"
| "frame_columns (r # rs) acc =
     frame_columns rs (acc @ filter (\<lambda>k. k \<notin> set acc) (map fst r))"

definition frame_lines :: "string list \<Rightarrow> row list \<Rightarrow> cell option list list" where
  "frame_lines cols rows = map (\<lambda>r. map (map_of r) cols) rows"

text \<open>
  Both writers take an optional file name and otherwise build one from the clock; the
  formatted clock reading is the argument \<open>timestamp\<close>. With no rows they print a line and
  return nothing. The column widths set on the sheet depend on how floats print and are not
  in the model; a write the file system refuses is not in it either.
\<close>

definition save_to_excel :: "string option \<Rightarrow> string \<Rightarrow> state \<Rightarrow> string option \<times> state" where
  "save_to_excel filename timestamp s =
     (if analysis_data s = [] then
        (None, print ''No data to export. Run analyze() first.'' s)
      else
        (let cols = frame_columns (analysis_data s) [];
             fname = (case filename of
                        None \<Rightarrow> ''Options_Analysis_'' @ timestamp @ ''.xlsx''
                      | Some f \<Rightarrow> f);
             sheet = Workbook ''Options Analysis'' cols (frame_lines cols (analysis_data s));
             s' = s\<lparr>files := (files s)(fname \<mapsto> sheet)\<rparr>
         in (Some fname, print (''Excel file saved: '' @ fname) s')))"

definition save_graphs :: "string option \<Rightarrow> string \<Rightarrow> state \<Rightarrow> string option \<times> state" where
  "save_graphs filename timestamp s =
     (if analysis_data s = [] then
        (None, print ''No data to plot. Run analyze() first.'' s)
      else
        (let s1 = print ''Generating graphs...'' s;
             fname = (case filename of
                        None \<Rightarrow> ''Options_Analysis_Graphs_'' @ timestamp @ ''.png''
                      | Some f \<Rightarrow> f);
             s2 = s1\<lparr>files := (files s1)(fname \<mapsto> Figure (analysis_data s1))\<rparr>
         in (Some fname, print (''Graphs saved: '' @ fname) s2)))"

text \<open>
  \<open>run\<close> sets the two parameters, analyzes, and calls both writers without a file name;
  \<open>t1\<close> and \<open>t2\<close> are the two clock readings. Its banner and its echo of the
  configuration are not in the model.
\<close>

definition run ::
  "stock list \<Rightarrow> real \<Rightarrow> real \<Rightarrow> string \<Rightarrow> string \<Rightarrow> state
     \<Rightarrow> error + ((string option \<times> string option) \<times> state)" where
  "run stocks margin multiplier t1 t2 s =
     (let s0 = s\<lparr>margin_percent := margin, lot_multiplier := multiplier\<rparr>
      in case analyze stocks s0 of
           Inl e \<Rightarrow> Inl e
         | Inr s1 \<Rightarrow>
             (let (excel_file, s2) = save_to_excel None t1 s1;
                  (graph_file, s3) = save_graphs None t2 s2
              in Inr ((excel_file, graph_file), s3)))"

subsection \<open>Notions used to state the properties\<close>

text \<open>
  An integer \<open>r\<close> is the round-half-to-even value of \<open>x\<close> when it is nearer to \<open>x\<close>
  than any other integer or, at a midpoint, is the even one of the two nearest.
\<close>

definition nearest_half_even :: "real \<Rightarrow> int \<Rightarrow> bool" where
  "nearest_half_even x r \<longleftrightarrow>
     \<bar>x - of_int r\<bar> < 1 / 2 \<or> (\<bar>x - of_int r\<bar> = 1 / 2 \<and> even r)"

text \<open>
  A number \<open>r\<close> is \<open>x\<close> rounded to two decimals when it has at most two decimals and
  lies within half a hundredth of \<open>x\<close>.
\<close>

definition rounded_2dp :: "real \<Rightarrow> real \<Rightarrow> bool" where
  "rounded_2dp x r \<longleftrightarrow> of_int \<lfloor>r * 100\<rfloor> = r * 100 \<and> \<bar>r - x\<bar> \<le> 1 / 200"

text \<open>The keys of the row dictionary, in the order of its literal.\<close>

definition row_keys :: "string list" where
  "row_keys = [''Symbol'', ''Spot Price'', ''52W High'', ''52W Low'', ''Percentile'',
               ''Lot Size'', ''CE Strike'', ''CE Premium'', ''CE IRR'', ''PE Strike'',
               ''PE Premium'', ''PE IRR'', ''Margin Used (%)'']"

section \<open>Rounding\<close>

lemma py_round_of_int: "py_round (of_int k) = k"
  by (simp add: py_round_def)

lemma py_round_half_even: "nearest_half_even x (py_round x)"
proof -
  define f where "f = \<lfloor>x\<rfloor>"
  define d where "d = x - of_int f"
  have d: "0 \<le> d" "d < 1" unfolding d_def f_def by linarith+
  have x: "x = of_int f + d" by (simp add: d_def)
  have r: "py_round x =
             (if d < 1 / 2 then f else if 1 / 2 < d then f + 1 else if even f then f else f + 1)"
    unfolding py_round_def Let_def f_def [symmetric] d_def [symmetric] ..
  consider "d < 1 / 2" | "1 / 2 < d" | "d = 1 / 2" "even f" | "d = 1 / 2" "odd f"
    by fastforce
  then show ?thesis
  proof cases
    case 1
    then have "py_round x = f" by (simp add: r)
    moreover have "\<bar>x - of_int f\<bar> < 1 / 2" using 1 d x by linarith
    ultimately show ?thesis by (simp add: nearest_half_even_def)
  next
    case 2
    then have "py_round x = f + 1" by (simp add: r)
    moreover have "\<bar>x - of_int (f + 1)\<bar> < 1 / 2" using 2 d x by simp
    ultimately show ?thesis by (simp add: nearest_half_even_def)
  next
    case 3
    then have "py_round x = f" by (simp add: r)
    moreover have "\<bar>x - of_int f\<bar> = 1 / 2" using 3 x by simp
    ultimately show ?thesis using 3 by (simp add: nearest_half_even_def)
  next
    case 4
    then have "py_round x = f + 1" by (simp add: r)
    moreover have "\<bar>x - of_int (f + 1)\<bar> = 1 / 2" using 4 x by simp
    ultimately show ?thesis using 4 by (simp add: nearest_half_even_def)
  qed
qed


lemma py_round2_rounded: "rounded_2dp x (py_round2 x)"
proof -
  have "nearest_half_even (x * 100) (py_round (x * 100))" by (rule py_round_half_even)
  then have "\<bar>x * 100 - of_int (py_round (x * 100))\<bar> \<le> 1 / 2"
    by (auto simp: nearest_half_even_def)
  then have "\<bar>py_round2 x - x\<bar> \<le> 1 / 200"
    unfolding py_round2_def by (simp add: abs_if field_simps split: if_splits)
  then show ?thesis by (simp add: rounded_2dp_def py_round2_def)
qed

text \<open>Away from a midpoint only one number is the rounding to two decimals.\<close>

lemma rounded_2dp_unique:
  assumes "rounded_2dp x r" and "\<bar>of_int n / 100 - x\<bar> < 1 / 200"
  shows "r = of_int n / 100"
proof -
  define m where "m = \<lfloor>r * 100\<rfloor>"
  have m: "of_int m = r * 100" and d: "\<bar>r - x\<bar> \<le> 1 / 200"
    using assms(1) by (simp_all add: rounded_2dp_def m_def)
  have r: "r = of_int m / 100" using m by simp
  have "\<bar>of_int m / 100 - of_int n / (100::real)\<bar> < 1 / 100"
    using d assms(2) unfolding r by linarith
  then have "\<bar>(of_int m :: real) - of_int n\<bar> < 1" by (simp add: abs_if split: if_splits)
  then have "\<bar>m - n\<bar> < 1" by linarith
  then have "m = n" by linarith
  with r show ?thesis by simp
qed

section \<open>The analysis loop and the data frame\<close>

lemma find_nearest_strike_50:
  "find_nearest_strike p 50 = Inr (of_int (py_round (p / 50)) * 50)"
  by (simp add: find_nearest_strike_def)

lemma calculate_strike_with_margin_total:
  "\<exists>k. calculate_strike_with_margin spot m c = Inr k"
  by (simp add: calculate_strike_with_margin_def find_nearest_strike_50 Let_def)

lemma calculate_irr_30_total: "\<exists>v. calculate_irr p k 30 = Inr v"
  by (simp add: calculate_irr_def Let_def)

lemma row_data_total:
  "\<exists>pc cs cp ci ps pp pi.
     row_data st s =
       Inr [(''Symbol'', Str (symbol st)), (''Spot Price'', Num (spot_price st)),
            (''52W High'', Num (high_52w st)), (''52W Low'', Num (low_52w st)),
            (''Percentile'', Num pc), (''Lot Size'', Num (lot_size st * lot_multiplier s)),
            (''CE Strike'', Num cs), (''CE Premium'', Num cp), (''CE IRR'', Num ci),
            (''PE Strike'', Num ps), (''PE Premium'', Num pp), (''PE IRR'', Num pi),
            (''Margin Used (%)'', Num (margin_percent s))]"
proof -
  obtain cs where cs: "calculate_strike_with_margin (spot_price st) (margin_percent s) True = Inr cs"
    using calculate_strike_with_margin_total by blast
  obtain ps where ps: "calculate_strike_with_margin (spot_price st) (margin_percent s) False = Inr ps"
    using calculate_strike_with_margin_total by blast
  obtain ci where ci:
    "calculate_irr (generate_option_premium (spot_price st) cs ''CE'') cs 30 = Inr ci"
    using calculate_irr_30_total by blast
  obtain pi where pi:
    "calculate_irr (generate_option_premium (spot_price st) ps ''PE'') ps 30 = Inr pi"
    using calculate_irr_30_total by blast
  show ?thesis
    by (simp add: row_data_def Let_def cs ps ci pi)
qed

lemma row_data_keys: "row_data st s = Inr r \<Longrightarrow> map fst r = row_keys"
  using row_data_total [of st s] by (auto simp: row_keys_def)

lemma row_data_cells:
  "row_data st s = Inr r \<Longrightarrow> map (map_of r) row_keys = map (Some \<circ> snd) r"
  using row_data_total [of st s] by (auto simp: row_keys_def)

lemma row_data_front:
  "row_data st s = Inr r \<Longrightarrow>
     take 4 (map snd r) = [Str (symbol st), Num (spot_price st), Num (high_52w st), Num (low_52w st)]"
  using row_data_total [of st s] by auto

lemma row_data_fields:
  "margin_percent s' = margin_percent s \<Longrightarrow> lot_multiplier s' = lot_multiplier s
     \<Longrightarrow> row_data st s' = row_data st s"
  by (simp add: row_data_def Let_def split: sum.splits)

lemma analyze_loop_appends:
  "analyze_loop stocks s =
     Inr (s\<lparr>analysis_data := analysis_data s @ map (\<lambda>st. projr (row_data st s)) stocks\<rparr>)"
proof (induction stocks arbitrary: s)
  case Nil
  show ?case by simp
next
  case (Cons st stocks)
  obtain r where r: "row_data st s = Inr r"
    using row_data_total [of st s] by blast
  let ?s = "s\<lparr>analysis_data := analysis_data s @ [r]\<rparr>"
  have same: "row_data u ?s = row_data u s" for u
    by (rule row_data_fields) simp_all
  show ?case
    by (simp add: r Cons.IH [of ?s] same)
qed

lemma frame_columns_same:
  "\<forall>r \<in> set rows. map fst r = ks \<Longrightarrow> frame_columns rows ks = ks"
  by (induction rows) simp_all

lemma frame_columns_first:
  "rows \<noteq> [] \<Longrightarrow> \<forall>r \<in> set rows. map fst r = ks \<Longrightarrow> frame_columns rows [] = ks"
  by (cases rows) (simp_all add: frame_columns_same)

lemma analyze_result:
  "analyze stocks s =
     Inr (print (''Analysis completed for ''
                  @ str_nat (length (analysis_data s) + length stocks) @ '' symbols!'')
            ((print ''Starting Options Analysis...'' s)
               \<lparr>analysis_data := analysis_data s @ map (\<lambda>st. projr (row_data st s)) stocks\<rparr>))"
proof -
  have same: "row_data u (print x s) = row_data u s" for u x
    by (rule row_data_fields) (simp_all add: print_def)
  show ?thesis
    by (simp add: analyze_def analyze_loop_appends same) (simp add: print_def)
qed

lemma run_result:
  "\<exists>r s'. run stocks m l t1 t2 s = Inr (r, s') \<and>
          analysis_data s' =
            analysis_data s
              @ map (\<lambda>st. projr (row_data st (s\<lparr>margin_percent := m, lot_multiplier := l\<rparr>)))
                  stocks \<and>
          margin_percent s' = m \<and> lot_multiplier s' = l \<and>
          (''Analysis completed for '' @ str_nat (length (analysis_data s) + length stocks)
             @ '' symbols!'') \<in> set (out s')"
  by (simp add: run_def analyze_result save_to_excel_def save_graphs_def Let_def print_def
      split: prod.splits)

text \<open>
  The workbook of an analysis that starts with no rows: the thirteen keys in order as the
  header and one data row per stock, in the order of the stocks, holding the values of the
  dictionary computed for that stock.
\<close>

lemma first_spreadsheet_layout:
  assumes "stocks \<noteq> []" and "analysis_data s = []"
  shows "\<exists>s1 fname body s2.
           analyze stocks s = Inr s1 \<and>
           save_to_excel filename t s1 = (Some fname, s2) \<and>
           files s2 fname =
             Some (Workbook ''Options Analysis''
                     [''Symbol'', ''Spot Price'', ''52W High'', ''52W Low'', ''Percentile'',
                      ''Lot Size'', ''CE Strike'', ''CE Premium'', ''CE IRR'', ''PE Strike'',
                      ''PE Premium'', ''PE IRR'', ''Margin Used (%)''] body) \<and>
           length body = length stocks \<and>
           (\<forall>i < length stocks.
              \<exists>r. row_data (stocks ! i) s = Inr r \<and>
                  body ! i = map (Some \<circ> snd) r \<and>
                  take 4 (body ! i) =
                    [Some (Str (symbol (stocks ! i))), Some (Num (spot_price (stocks ! i))),
                     Some (Num (high_52w (stocks ! i))), Some (Num (low_52w (stocks ! i)))])"
proof -
  let ?rows = "map (\<lambda>st. projr (row_data st s)) stocks"
  let ?body = "frame_lines row_keys ?rows"
  obtain s1 where s1: "analyze stocks s = Inr s1" and d1: "analysis_data s1 = ?rows"
    using assms(2) by (simp add: analyze_result print_def)
  have keys: "\<forall>r \<in> set ?rows. map fst r = row_keys"
  proof
    fix r assume "r \<in> set ?rows"
    then obtain st where "r = projr (row_data st s)" by auto
    moreover obtain r' where "row_data st s = Inr r'" using row_data_total [of st s] by blast
    ultimately show "map fst r = row_keys" using row_data_keys by fastforce
  qed
  have ne: "?rows \<noteq> []" using assms(1) by simp
  have cols: "frame_columns ?rows [] = row_keys"
    by (rule frame_columns_first [OF ne keys])
  define fname where
    "fname = (case filename of None \<Rightarrow> ''Options_Analysis_'' @ t @ ''.xlsx'' | Some f \<Rightarrow> f)"
  define s2 where
    "s2 = print (''Excel file saved: '' @ fname)
            (s1\<lparr>files := (files s1)(fname \<mapsto> Workbook ''Options Analysis'' row_keys ?body)\<rparr>)"
  have save: "save_to_excel filename t s1 = (Some fname, s2)"
    using ne by (simp add: save_to_excel_def Let_def cols d1 fname_def s2_def)
  have written: "files s2 fname = Some (Workbook ''Options Analysis'' row_keys ?body)"
    by (simp add: s2_def print_def)
  have len: "length ?body = length stocks" by (simp add: frame_lines_def)
  have line: "\<exists>r. row_data (stocks ! i) s = Inr r \<and> ?body ! i = map (Some \<circ> snd) r \<and>
                take 4 (?body ! i) =
                  [Some (Str (symbol (stocks ! i))), Some (Num (spot_price (stocks ! i))),
                   Some (Num (high_52w (stocks ! i))), Some (Num (low_52w (stocks ! i)))]"
    if i: "i < length stocks" for i
  proof -
    obtain r where r: "row_data (stocks ! i) s = Inr r"
      using row_data_total [of "stocks ! i" s] by blast
    have b: "?body ! i = map (Some \<circ> snd) r"
      using i by (simp add: frame_lines_def r row_data_cells [OF r])
    have "take 4 (map (Some \<circ> snd) r) = map Some (take 4 (map snd r))"
      by (simp add: take_map)
    with row_data_front [OF r] b show ?thesis using r by simp
  qed
  from s1 save written len line show ?thesis
    unfolding row_keys_def by blast
qed

lemma report_name_differs:
  "''Options_Analysis_'' @ t1 @ ''.xlsx'' \<noteq> ''Options_Analysis_Graphs_'' @ t2 @ ''.png''"
proof
  assume "''Options_Analysis_'' @ t1 @ ''.xlsx'' = ''Options_Analysis_Graphs_'' @ t2 @ ''.png''"
  then have "last (''Options_Analysis_'' @ t1 @ ''.xlsx'')
               = last (''Options_Analysis_Graphs_'' @ t2 @ ''.png'')" by simp
  then show False by simp
qed

lemma row_data_symbol:
  "row_data st s = Inr r \<Longrightarrow> map_of r ''Symbol'' = Some (Str (symbol st))"
  using row_data_total [of st s] by auto

lemma run_report:
  assumes "analysis_data s @ map (\<lambda>st. projr (row_data st (s\<lparr>margin_percent := m, lot_multiplier := l\<rparr>))) stocks = rows"
    and "rows \<noteq> []"
  shows "\<exists>g s'. run stocks m l t1 t2 s = Inr ((Some (''Options_Analysis_'' @ t1 @ ''.xlsx''), g), s') \<and>
           analysis_data s' = rows \<and>
           files s' (''Options_Analysis_'' @ t1 @ ''.xlsx'')
             = Some (Workbook ''Options Analysis'' (frame_columns rows [])
                       (frame_lines (frame_columns rows []) rows))"
  using assms report_name_differs [of t1 t2]
  by (auto simp: run_def analyze_result save_to_excel_def save_graphs_def Let_def print_def
      split: prod.splits)

lemma second_report:
  assumes "stocks \<noteq> []"
  shows "\<exists>r1 s1 g s2 body.
           run stocks m l t1 t2 (init fs) = Inr (r1, s1) \<and>
           run stocks m l t3 t4 s1
             = Inr ((Some (''Options_Analysis_'' @ t3 @ ''.xlsx''), g), s2) \<and>
           files s2 (''Options_Analysis_'' @ t3 @ ''.xlsx'')
             = Some (Workbook ''Options Analysis'' row_keys body) \<and>
           length body = 2 * length stocks \<and>
           map hd body = map (\<lambda>st. Some (Str (symbol st))) (stocks @ stocks)"
proof -
  let ?c = "\<lambda>s::state. s\<lparr>margin_percent := m, lot_multiplier := l\<rparr>"
  let ?f = "\<lambda>st. projr (row_data st (?c (init fs)))"
  let ?rows = "map ?f stocks @ map ?f stocks"
  obtain r1 s1 where 1: "run stocks m l t1 t2 (init fs) = Inr (r1, s1)"
    and d1: "analysis_data s1 = map ?f stocks"
    and m1: "margin_percent s1 = m" "lot_multiplier s1 = l"
    using run_result [of stocks m l t1 t2 "init fs"] by (auto simp: init_def)
  have same: "row_data st (?c s1) = row_data st (?c (init fs))" for st
    by (rule row_data_fields) simp_all
  have rows: "analysis_data s1 @ map (\<lambda>st. projr (row_data st (?c s1))) stocks = ?rows"
    by (simp add: d1 same)
  have ne: "?rows \<noteq> []" using assms by simp
  obtain g s2 where 2: "run stocks m l t3 t4 s1
                          = Inr ((Some (''Options_Analysis_'' @ t3 @ ''.xlsx''), g), s2)"
    and f2: "files s2 (''Options_Analysis_'' @ t3 @ ''.xlsx'')
               = Some (Workbook ''Options Analysis'' (frame_columns ?rows [])
                         (frame_lines (frame_columns ?rows []) ?rows))"
    using run_report [OF rows ne, of t3 t4] by blast
  have row: "map fst (?f st) = row_keys \<and> map_of (?f st) ''Symbol'' = Some (Str (symbol st))"
    for st
  proof -
    obtain r where "row_data st (?c (init fs)) = Inr r"
      using row_data_total [of st "?c (init fs)"] by blast
    then show ?thesis using row_data_keys row_data_symbol by fastforce
  qed
  have keys: "\<forall>r \<in> set ?rows. map fst r = row_keys" using row by auto
  have cols: "frame_columns ?rows [] = row_keys"
    by (rule frame_columns_first [OF ne keys])
  have len: "length (frame_lines row_keys ?rows) = 2 * length stocks"
    by (simp add: frame_lines_def)
  have heads: "map hd (frame_lines row_keys ?rows)
                 = map (\<lambda>st. Some (Str (symbol st))) (stocks @ stocks)"
    by (simp add: frame_lines_def row_keys_def row comp_def)
  from 1 2 f2 len heads show ?thesis unfolding cols by blast
qed

lemma run_twice:
  "\<exists>r1 s1 r2 s2.
     run stocks m l t1 t2 (init fs) = Inr (r1, s1) \<and>
     run stocks m l t3 t4 s1 = Inr (r2, s2) \<and>
     length (analysis_data s1) = length stocks \<and>
     analysis_data s2 = analysis_data s1 @ analysis_data s1 \<and>
     (''Analysis completed for '' @ str_nat (2 * length stocks) @ '' symbols!'')
       \<in> set (out s2)"
proof -
  let ?c = "\<lambda>s::state. s\<lparr>margin_percent := m, lot_multiplier := l\<rparr>"
  obtain r1 s1 where 1: "run stocks m l t1 t2 (init fs) = Inr (r1, s1)"
    and d1: "analysis_data s1 = map (\<lambda>st. projr (row_data st (?c (init fs)))) stocks"
    and m1: "margin_percent s1 = m" "lot_multiplier s1 = l"
    using run_result [of stocks m l t1 t2 "init fs"] by (auto simp: init_def)
  obtain r2 s2 where 2: "run stocks m l t3 t4 s1 = Inr (r2, s2)"
    and d2: "analysis_data s2 =
               analysis_data s1 @ map (\<lambda>st. projr (row_data st (?c s1))) stocks"
    and o2: "(''Analysis completed for '' @ str_nat (length (analysis_data s1) + length stocks)
                @ '' symbols!'') \<in> set (out s2)"
    using run_result [of stocks m l t3 t4 s1] by blast
  have same: "row_data st (?c s1) = row_data st (?c (init fs))" for st
    by (rule row_data_fields) simp_all
  have len: "length (analysis_data s1) = length stocks" by (simp add: d1)
  have dup: "analysis_data s2 = analysis_data s1 @ analysis_data s1"
    by (simp add: d2 same d1)
  have "length (analysis_data s1) + length stocks = 2 * length stocks" using len by simp
  with o2 have msg: "(''Analysis completed for '' @ str_nat (2 * length stocks) @ '' symbols!'')
                       \<in> set (out s2)" by simp
  from 1 2 len dup msg show ?thesis by blast
qed

section \<open>The stated properties\<close>

subsection \<open>C1: the NIFTY example\<close>

text \<open>
  C1 gives, for the record NIFTY (spot 19500, high 20000, low 18000, lot 50) and margin 15:
  percentile 75.0, nearest strike of 19500 equal to 19500, call strike 16600, call premium
  3290.00 and a call return of about 1607.95. The first four hold. The return does not:
  \<open>3290 / 2490 * (365 / 30) * 100\<close> is 1607.5635..., which rounds to 1607.56, and that is
  0.39 away from the stated figure.
\<close>

theorem nifty_ce_irr_counterexample:
  "calculate_irr 3290 16600 30 = Inr 1607.56 \<and>
   \<bar>projr (calculate_irr 3290 16600 30) - 1607.95\<bar> = 0.39"
  by (simp add: calculate_irr_def py_round2_def py_round_def Let_def)

text \<open>
  C1 as amended: the same record and margin give percentile 75, nearest strike 19500, call
  strike 16600, call premium 3290 and call return 1607.56; the row the loop appends for the
  record holds these values (and a put strike of 22400, a put premium of 3290 and a put
  return of 1191.32).
\<close>

theorem nifty_example:
  "calculate_percentile 19500 20000 18000 = 75 \<and>
   find_nearest_strike 19500 50 = Inr 19500 \<and>
   calculate_strike_with_margin 19500 15 True = Inr 16600 \<and>
   generate_option_premium 19500 16600 ''CE'' = 3290 \<and>
   calculate_irr 3290 16600 30 = Inr 1607.56 \<and>
   row_data \<lparr>symbol = ''NIFTY'', spot_price = 19500, high_52w = 20000, low_52w = 18000,
             lot_size = 50\<rparr> (init fs)
     = Inr [(''Symbol'', Str ''NIFTY''), (''Spot Price'', Num 19500),
            (''52W High'', Num 20000), (''52W Low'', Num 18000),
            (''Percentile'', Num 75), (''Lot Size'', Num 50),
            (''CE Strike'', Num 16600), (''CE Premium'', Num 3290),
            (''CE IRR'', Num 1607.56), (''PE Strike'', Num 22400),
            (''PE Premium'', Num 3290), (''PE IRR'', Num 1191.32),
            (''Margin Used (%)'', Num 15)]"
  by (simp add: calculate_percentile_def find_nearest_strike_def
      calculate_strike_with_margin_def generate_option_premium_def calculate_irr_def
      py_round2_def py_round_def Let_def row_data_def init_def)

subsection \<open>C2: the percentile\<close>

text \<open>
  C2: \<open>calculate_percentile\<close> returns 50 when high and low are equal and otherwise
  \<open>(current - low) / (high - low) * 100\<close>, without clamping: below a proper range the
  result is negative, above it the result exceeds 100.
\<close>

theorem calculate_percentile_spec:
  "(high = low \<longrightarrow> calculate_percentile current high low = 50) \<and>
   (high \<noteq> low \<longrightarrow>
      calculate_percentile current high low = ((current - low) / (high - low)) * 100) \<and>
   (low < high \<and> current < low \<longrightarrow> calculate_percentile current high low < 0) \<and>
   (low < high \<and> high < current \<longrightarrow> 100 < calculate_percentile current high low)"
  by (auto simp: calculate_percentile_def field_simps)

theorem calculate_percentile_spec_witness:
  "calculate_percentile 7 5 5 = 50 \<and>
   calculate_percentile 19500 20000 18000 = 75 \<and>
   calculate_percentile 17000 20000 18000 < 0 \<and>
   100 < calculate_percentile 21000 20000 18000"
  using calculate_percentile_spec [of 5 5 7]
    calculate_percentile_spec [of 20000 18000 19500]
    calculate_percentile_spec [of 20000 18000 17000]
    calculate_percentile_spec [of 20000 18000 21000]
  by simp

subsection \<open>C3: the nearest strike\<close>



subsection \<open>C4: a zero margin\<close>

text \<open>
  C4: with a margin of zero, \<open>calculate_strike_with_margin\<close> returns the nearest strike
  of the spot, for calls and for puts.
\<close>

theorem zero_margin_no_adjustment:
  "calculate_strike_with_margin spot 0 is_call = find_nearest_strike spot 50"
  by (simp add: calculate_strike_with_margin_def find_nearest_strike_def py_round_of_int)

subsection \<open>C5: the premium\<close>

text \<open>
  C5: for a call (option type \<open>CE\<close>) the premium is \<open>(spot - strike) + spot * 0.02\<close>
  rounded to two decimals when the spot is above the strike and \<open>spot * 0.01\<close> rounded
  otherwise; for a put (any other option type) the first branch applies when the spot is
  below the strike, with \<open>strike - spot\<close> as the intrinsic part. Rounded to two decimals
  means a value with two decimals within half a hundredth of the formula; away from a midpoint
  there is one such value (\<open>rounded_2dp_unique\<close>), as the examples after the theorem
  show.
\<close>

theorem generate_option_premium_spec:
  "(strike < spot \<longrightarrow>
      rounded_2dp ((spot - strike) + spot * 0.02) (generate_option_premium spot strike ''CE'')) \<and>
   (spot \<le> strike \<longrightarrow>
      rounded_2dp (spot * 0.01) (generate_option_premium spot strike ''CE'')) \<and>
   (t \<noteq> ''CE'' \<and> spot < strike \<longrightarrow>
      rounded_2dp ((strike - spot) + spot * 0.02) (generate_option_premium spot strike t)) \<and>
   (t \<noteq> ''CE'' \<and> strike \<le> spot \<longrightarrow>
      rounded_2dp (spot * 0.01) (generate_option_premium spot strike t))"
  by (simp add: generate_option_premium_def py_round2_rounded)

theorem generate_option_premium_spec_witness:
  "generate_option_premium 19500 16600 ''CE'' = 3290 \<and>
   generate_option_premium 19500 22400 ''CE'' = 195 \<and>
   generate_option_premium 19500 22400 ''PE'' = 3290 \<and>
   generate_option_premium 19500 16600 ''PE'' = 195 \<and>
   generate_option_premium 1234 1300 ''CE'' = 12.34"
proof -
  have "(16600::real) < 19500" by simp
  with generate_option_premium_spec [of 16600 19500 "''PE''"]
  have "rounded_2dp ((19500 - 16600) + 19500 * 0.02) (generate_option_premium 19500 16600 ''CE'')"
    and "rounded_2dp (19500 * 0.01) (generate_option_premium 19500 16600 ''PE'')"
    by simp_all
  then have a: "generate_option_premium 19500 16600 ''CE'' = 3290"
    and b: "generate_option_premium 19500 16600 ''PE'' = 195"
    using rounded_2dp_unique [of _ _ 329000] rounded_2dp_unique [of _ _ 19500] by simp_all
  have "(19500::real) \<le> 22400" by simp
  with generate_option_premium_spec [of 22400 19500 "''PE''"]
  have "rounded_2dp (19500 * 0.01) (generate_option_premium 19500 22400 ''CE'')"
    and "rounded_2dp ((22400 - 19500) + 19500 * 0.02) (generate_option_premium 19500 22400 ''PE'')"
    by simp_all
  then have c: "generate_option_premium 19500 22400 ''CE'' = 195"
    and d: "generate_option_premium 19500 22400 ''PE'' = 3290"
    using rounded_2dp_unique [of _ _ 19500] rounded_2dp_unique [of _ _ 329000] by simp_all
  have "(1234::real) \<le> 1300" by simp
  with generate_option_premium_spec [of 1300 1234 "''PE''"]
  have "rounded_2dp (1234 * 0.01) (generate_option_premium 1234 1300 ''CE'')" by simp
  then have e: "generate_option_premium 1234 1300 ''CE'' = 12.34"
    using rounded_2dp_unique [of _ _ 1234] by simp
  from a b c d e show ?thesis by blast
qed

subsection \<open>C6: the annualized return\<close>

text \<open>
  C6 says that \<open>calculate_irr\<close> returns 0 for a strike of zero whatever the days, that for
  every non-zero strike it returns \<open>premium / (strike * 0.15) * (365 / days) * 100\<close>
  rounded to two decimals, and that no division by zero is ever reached. The guard covers
  the margin only: with a non-zero strike and zero days the second quotient raises.
\<close>

theorem calculate_irr_zero_days_counterexample:
  "calculate_irr 3290 16600 0 = Inl ZeroDivisionError"
  by (simp add: calculate_irr_def)

text \<open>
  C6 as amended: a strike of zero gives 0 for every premium and every number of days; a
  non-zero strike with a non-zero number of days gives a value, the formula rounded to two
  decimals in the sense of C5, and no division by zero is reached.
\<close>

theorem calculate_irr_spec:
  "calculate_irr premium 0 days = Inr 0 \<and>
   (strike \<noteq> 0 \<and> days \<noteq> 0 \<longrightarrow>
      (\<exists>r. calculate_irr premium strike days = Inr r \<and>
           rounded_2dp ((premium / (strike * 0.15)) * (365 / days) * 100) r))"
  by (simp add: calculate_irr_def py_round2_rounded)

theorem calculate_irr_spec_witness:
  "calculate_irr 3290 0 0 = Inr 0 \<and> calculate_irr 3290 16600 30 = Inr 1607.56"
proof -
  have z: "calculate_irr 3290 0 0 = Inr 0"
    using calculate_irr_spec [of 3290 0 16600] by simp
  have "(16600::real) \<noteq> 0 \<and> (30::real) \<noteq> 0" by simp
  with calculate_irr_spec [of 3290 30 16600]
  obtain r where r: "calculate_irr 3290 16600 30 = Inr r"
    and w: "rounded_2dp ((3290 / (16600 * 0.15)) * (365 / 30) * 100) r"
    by blast
  have "\<bar>of_int 160756 / 100 - (3290 / (16600 * 0.15)) * (365 / 30) * (100::real)\<bar> < 1 / 200"
    by simp
  from rounded_2dp_unique [OF w this] have "r = 1607.56" by simp
  with z r show ?thesis by simp
qed

subsection \<open>C7: no rows, no file\<close>

text \<open>
  C7: with an empty \<open>analysis_data\<close> both writers return nothing instead of a file name,
  print their no-data line, and leave the files as they were, whether or not a file name was
  passed.
\<close>

theorem no_data_no_file:
  assumes "analysis_data s = []"
  shows "save_to_excel filename t s
           = (None, print ''No data to export. Run analyze() first.'' s) \<and>
         files (snd (save_to_excel filename t s)) = files s \<and>
         save_graphs filename t s
           = (None, print ''No data to plot. Run analyze() first.'' s) \<and>
         files (snd (save_graphs filename t s)) = files s"
  using assms by (simp add: save_to_excel_def save_graphs_def print_def)

theorem no_data_no_file_witness:
  "analysis_data (init Map.empty) = [] \<and>
   fst (save_to_excel (Some ''report.xlsx'') ''20240101_093000'' (init Map.empty)) = None \<and>
   files (snd (save_to_excel (Some ''report.xlsx'') ''20240101_093000'' (init Map.empty)))
     = Map.empty \<and>
   fst (save_graphs (Some ''report.png'') ''20240101_093000'' (init Map.empty)) = None \<and>
   files (snd (save_graphs (Some ''report.png'') ''20240101_093000'' (init Map.empty)))
     = Map.empty"
proof -
  have e: "analysis_data (init Map.empty) = []" by (simp add: init_def)
  have f: "files (init Map.empty) = Map.empty" by (simp add: init_def)
  from no_data_no_file [OF e, of "Some ''report.xlsx''" "''20240101_093000''"]
    no_data_no_file [OF e, of "Some ''report.png''" "''20240101_093000''"] e f
  show ?thesis by (simp add: print_def)
qed

subsection \<open>C8: the layout of the spreadsheet\<close>

text \<open>
  C8 says that the workbook has the thirteen column names in their order as its header,
  followed by exactly one data row per input record in the order of the input. The header
  is as stated, and so are the rows of the first run of an analyzer
  (\<open>first_spreadsheet_layout\<close>). The rows are taken from \<open>analysis_data\<close>, which
  nothing empties between runs: the workbook of the second run over the ten sample records
  has the stated header and twenty data rows, the ten records in order and then the same ten
  again.
\<close>

theorem second_spreadsheet_repeats_rows:
  "\<exists>r1 s1 g s2 body.
     run get_sample_data 15 1 t1 t2 (init fs) = Inr (r1, s1) \<and>
     run get_sample_data 15 1 t3 t4 s1
       = Inr ((Some (''Options_Analysis_'' @ t3 @ ''.xlsx''), g), s2) \<and>
     files s2 (''Options_Analysis_'' @ t3 @ ''.xlsx'')
       = Some (Workbook ''Options Analysis''
                 [''Symbol'', ''Spot Price'', ''52W High'', ''52W Low'', ''Percentile'',
                  ''Lot Size'', ''CE Strike'', ''CE Premium'', ''CE IRR'', ''PE Strike'',
                  ''PE Premium'', ''PE IRR'', ''Margin Used (%)''] body) \<and>
     length body = 20 \<and>
     map hd body =
       map (\<lambda>n. Some (Str n))
         [''NIFTY'', ''BANKNIFTY'', ''RELIANCE'', ''TCS'', ''INFY'', ''HDFCBANK'', ''ICICIBANK'',
          ''SBIN'', ''BHARTIARTL'', ''HINDUNILVR'',
          ''NIFTY'', ''BANKNIFTY'', ''RELIANCE'', ''TCS'', ''INFY'', ''HDFCBANK'', ''ICICIBANK'',
          ''SBIN'', ''BHARTIARTL'', ''HINDUNILVR'']"
proof -
  have ne: "get_sample_data \<noteq> []" by (simp add: get_sample_data_def)
  have n: "2 * length get_sample_data = 20" by (simp add: get_sample_data_def)
  have sy: "map (\<lambda>st. Some (Str (symbol st))) (get_sample_data @ get_sample_data) =
       map (\<lambda>n. Some (Str n))
         [''NIFTY'', ''BANKNIFTY'', ''RELIANCE'', ''TCS'', ''INFY'', ''HDFCBANK'', ''ICICIBANK'',
          ''SBIN'', ''BHARTIARTL'', ''HINDUNILVR'',
          ''NIFTY'', ''BANKNIFTY'', ''RELIANCE'', ''TCS'', ''INFY'', ''HDFCBANK'', ''ICICIBANK'',
          ''SBIN'', ''BHARTIARTL'', ''HINDUNILVR'']"
    by (simp add: get_sample_data_def)
  from second_report [OF ne, of 15 1 t1 t2 fs t3 t4]
  show ?thesis unfolding n sy row_keys_def by blast
qed

subsection \<open>C9: rows across runs\<close>

text \<open>
  C9 says that every run starts from an empty collection, so that a second run yields one
  row per record again. The collection is emptied by the constructor only: \<open>run\<close> and
  \<open>analyze\<close> append to what is there. Two runs of one analyzer over the ten sample
  records leave twenty rows, each record twice, and the second run announces twenty symbols.
\<close>

theorem rows_accumulate_across_runs:
  "\<exists>r1 s1 r2 s2.
     run get_sample_data 15 1 t1 t2 (init fs) = Inr (r1, s1) \<and>
     run get_sample_data 15 1 t3 t4 s1 = Inr (r2, s2) \<and>
     length (analysis_data s1) = 10 \<and>
     length (analysis_data s2) = 20 \<and>
     analysis_data s2 = analysis_data s1 @ analysis_data s1 \<and>
     ''Analysis completed for 20 symbols!'' \<in> set (out s2)"
proof -
  have n: "length get_sample_data = 10" by (simp add: get_sample_data_def)
  have t: "str_nat 20 = ''20''" by (simp add: str_nat.simps)
  obtain r1 s1 r2 s2 where
    "run get_sample_data 15 1 t1 t2 (init fs) = Inr (r1, s1)"
    "run get_sample_data 15 1 t3 t4 s1 = Inr (r2, s2)"
    "length (analysis_data s1) = length get_sample_data"
    "analysis_data s2 = analysis_data s1 @ analysis_data s1"
    "(''Analysis completed for '' @ str_nat (2 * length get_sample_data) @ '' symbols!'')
       \<in> set (out s2)"
    using run_twice [of get_sample_data 15 1 t1 t2 fs t3 t4] by blast
  then show ?thesis by (auto simp: n t)
qed

subsection \<open>C10: the nearest strike of a strike\<close>

text \<open>
  C10: for a positive interval \<open>find_nearest_strike\<close> returns a value, and applied to that
  value with the same interval it returns it again.
\<close>

theorem find_nearest_strike_idempotent:
  assumes "0 < interval"
  shows "\<exists>s. find_nearest_strike price interval = Inr s \<and>
             find_nearest_strike s interval = Inr s"
  using assms by (simp add: find_nearest_strike_def py_round_of_int)

theorem find_nearest_strike_idempotent_witness:
  "(0::real) < 50 \<and>
   (\<exists>s. find_nearest_strike 19523 50 = Inr s \<and> find_nearest_strike s 50 = Inr s)"
  using find_nearest_strike_idempotent [of 50 19523] by simp

end
